theory Spec2Isabelle
  imports Main
begin

section \<open>JavaScript values\<close>

text \<open>
  The adapter in \<^verbatim>\<open>src/index.js\<close> passes host data (properties, event arguments,
  content payloads) to the editor library without inspecting more than their truthiness
  and their type tag. The values are modelled as a datatype. Numbers are restricted to
  integers (no claim depends on fractions or on NaN); strings are lists of code units
  below 256. \<open>JNative\<close> stands for a built-in function or object that is reachable
  through a prototype chain (\<^verbatim>\<open>Object.prototype.constructor\<close> and the like): it is
  truthy and equal to itself only.
\<close>

datatype jsval =
    JUndefined
  | JNull
  | JBool bool
  | JNum int
  | JStr string
  | JArr "jsval list"
  | JObj "(string \<times> jsval) list"
  | JNative string

text \<open>A plain object: its own enumerable properties in insertion order.\<close>

type_synonym jsobject = "(string \<times> jsval) list"

text \<open>JavaScript truthiness, as \<^verbatim>\<open>!x\<close>, \<^verbatim>\<open>if (x)\<close> and \<^verbatim>\<open>x || y\<close> test it.\<close>

fun truthy :: "jsval \<Rightarrow> bool" where
  "truthy JUndefined = False"
| "truthy JNull = False"
| "truthy (JBool b) = b"
| "truthy (JNum n) = (n \<noteq> 0)"
| "truthy (JStr s) = (s \<noteq> [])"
| "truthy (JArr xs) = True"
| "truthy (JObj kvs) = True"
| "truthy (JNative n) = True"

text \<open>
  The property names every plain object inherits from \<^verbatim>\<open>Object.prototype\<close>. A read
  \<^verbatim>\<open>o[k]\<close> of a key that is not an own property of \<open>o\<close> finds them.
\<close>

definition objectPrototypeKeys :: "string list" where
  "objectPrototypeKeys =
     [''constructor'', ''__defineGetter__'', ''__defineSetter__'', ''hasOwnProperty'',
      ''__lookupGetter__'', ''__lookupSetter__'', ''isPrototypeOf'',
      ''propertyIsEnumerable'', ''toString'', ''valueOf'', ''__proto__'',
      ''toLocaleString'']"

text \<open>\<^verbatim>\<open>o[k]\<close> on a plain object: the own property, else the inherited one, else undefined.\<close>

definition obj_get :: "jsobject \<Rightarrow> string \<Rightarrow> jsval" where
  "obj_get kvs k =
     (case map_of kvs k of
        Some v \<Rightarrow> v
      | None \<Rightarrow> if k \<in> set objectPrototypeKeys then JNative k else JUndefined)"

text \<open>\<^verbatim>\<open>o[k] = v\<close> on a plain object: overwrite the own property or append it.\<close>

fun obj_set :: "jsobject \<Rightarrow> string \<Rightarrow> jsval \<Rightarrow> jsobject" where
  "obj_set [] k v = [(k, v)]"
| "obj_set ((k', v') # kvs) k v =
     (if k' = k then (k, v) # kvs else (k', v') # obj_set kvs k v)"

text \<open>
  \<^verbatim>\<open>properties?.k\<close>: the module variable \<^verbatim>\<open>properties\<close> is \<^verbatim>\<open>null\<close> (here
  \<open>None\<close>) until the host has loaded the component; optional chaining reads undefined then.
\<close>

definition opt_get :: "jsobject option \<Rightarrow> string \<Rightarrow> jsval" where
  "opt_get ps k = (case ps of None \<Rightarrow> JUndefined | Some kvs \<Rightarrow> obj_get kvs k)"

text \<open>
  \<^verbatim>\<open>isEqual\<close> of lodash on these values: arrays are compared element by element,
  plain objects by their sets of own keys and the values under them (the order of the
  keys does not matter), everything else by identity of tag and value.
\<close>

fun isEqual :: "jsval \<Rightarrow> jsval \<Rightarrow> bool"
  and isEqual_fields :: "jsobject \<Rightarrow> jsobject \<Rightarrow> bool"
  and isEqual_items :: "jsval list \<Rightarrow> jsval list \<Rightarrow> bool" where
  "isEqual (JObj xs) (JObj ys) = (length xs = length ys \<and> isEqual_fields xs ys)"
| "isEqual (JArr xs) (JArr ys) = isEqual_items xs ys"
| "isEqual a b = (a = b)"
| "isEqual_fields [] ys = True"
| "isEqual_fields ((k, v) # xs) ys =
     (case map_of ys k of
        None \<Rightarrow> False
      | Some w \<Rightarrow> isEqual v w \<and> isEqual_fields xs ys)"
| "isEqual_items [] [] = True"
| "isEqual_items (x # xs) (y # ys) = (isEqual x y \<and> isEqual_items xs ys)"
| "isEqual_items xs ys = False"

section \<open>The HTML-tag regular expression\<close>

text \<open>
  \<^verbatim>\<open>updateText\<close> tests a string payload with \<^verbatim>\<open>/<\/?[a-z][\s\S]*>/i.test(text)\<close>.
  The expression is a sequence of single-character items, each taken once, optionally
  or any number of times; the matcher below tries every alternative, as the backtracking
  matcher of the language does, so it accepts exactly the same strings.
\<close>

datatype rx_atom =
    Chr char
  | LetterIC
  | AnyChar

datatype rx_item =
    One rx_atom
  | Opt rx_atom
  | Star rx_atom

text \<open>
  \<open>LetterIC\<close> is \<^verbatim>\<open>[a-z]\<close> under the \<^verbatim>\<open>i\<close> flag, \<open>AnyChar\<close> is \<^verbatim>\<open>[\s\S]\<close>.
\<close>

fun atom_ok :: "rx_atom \<Rightarrow> char \<Rightarrow> bool" where
  "atom_ok (Chr d) c = (c = d)"
| "atom_ok LetterIC c =
     (c \<in> set (''abcdefghijklmnopqrstuvwxyz'' @ ''ABCDEFGHIJKLMNOPQRSTUVWXYZ''))"
| "atom_ok AnyChar c = True"

text \<open>\<open>rx_match p s\<close>: the pattern matches a prefix of \<open>s\<close>.\<close>

fun rx_match :: "rx_item list \<Rightarrow> string \<Rightarrow> bool" where
  "rx_match [] s = True"
| "rx_match (One a # p) s =
     (case s of [] \<Rightarrow> False | c # cs \<Rightarrow> atom_ok a c \<and> rx_match p cs)"
| "rx_match (Opt a # p) s =
     ((case s of [] \<Rightarrow> False | c # cs \<Rightarrow> atom_ok a c \<and> rx_match p cs) \<or> rx_match p s)"
| "rx_match (Star a # p) s =
     ((case s of [] \<Rightarrow> False | c # cs \<Rightarrow> atom_ok a c \<and> rx_match (Star a # p) cs)
      \<or> rx_match p s)"

text \<open>\<^verbatim>\<open>RegExp.prototype.test\<close> without the sticky flag: a match may start anywhere.\<close>

fun rx_test :: "rx_item list \<Rightarrow> string \<Rightarrow> bool" where
  "rx_test p [] = rx_match p []"
| "rx_test p (c # cs) = (rx_match p (c # cs) \<or> rx_test p cs)"

definition htmlTagRegex :: "rx_item list" where
  "htmlTagRegex =
     [One (Chr CHR ''<''), Opt (Chr CHR ''/''), One LetterIC, Star AnyChar, One (Chr CHR ''>'')]"

section \<open>The editor library\<close>

text \<open>
  The editor (Quill) is a third-party library: the adapter only calls its public entry
  points. The model takes the library as a parameter, a record of the operations that
  \<^verbatim>\<open>src/index.js\<close> calls on an editor instance of an arbitrary type \<open>'q\<close>. Every
  theorem below holds for every such library. \<open>getContents\<close> gives the operations of
  the returned delta. The operations are total: an exception raised inside the library
  is outside the model. Events that the library emits (text-change, selection-change)
  are delivered to the adapter as steps of their own (section \<open>Events\<close>), after the
  handler that called into the library has returned.
\<close>

record 'q quill_api =
  newQuill :: "jsval \<Rightarrow> 'q"
  getText :: "'q \<Rightarrow> string"
  getSemanticHTML :: "'q \<Rightarrow> string"
  getContents :: "'q \<Rightarrow> jsval list"
  hasFocus :: "'q \<Rightarrow> bool"
  enable :: "bool \<Rightarrow> 'q \<Rightarrow> 'q"
  setText :: "string \<Rightarrow> 'q \<Rightarrow> 'q"
  dangerouslyPasteHTML :: "string \<Rightarrow> 'q \<Rightarrow> 'q"
  setContents :: "jsval \<Rightarrow> 'q \<Rightarrow> 'q"
  focus :: "'q \<Rightarrow> 'q"

section \<open>Module state\<close>

record validation =
  validated :: bool
  isEmpty :: bool

text \<open>
  The queryable snapshot that \<^verbatim>\<open>getQueryable\<close> builds (lines 32 to 39). A snapshot
  holds the validation flags as they are when it is built.
\<close>

record queryable =
  q_text :: string
  q_html :: string
  q_content :: jsval
  q_validation :: validation

text \<open>
  What \<^verbatim>\<open>PandaBridge.send\<close> is called with: \<open>Updated c q\<close> is
  \<^verbatim>\<open>send(PandaBridge.UPDATED, {...})\<close> with the queryable \<open>q\<close> and, when \<open>c\<close> is
  given, the property list \<^verbatim>\<open>[{id: "content", value: c}]\<close>; \<open>Named n q\<close> is
  \<^verbatim>\<open>send(n, [q])\<close>.
\<close>

datatype message =
    Updated "jsval option" queryable
  | Named string queryable

datatype dom_effect =
    ResetBody
  | SetScale jsval
  | SetScaleInverse jsval

datatype js_error = TypeError

text \<open>
  The module variables \<^verbatim>\<open>quill\<close>, \<^verbatim>\<open>properties\<close>, \<^verbatim>\<open>shouldForceFocus\<close> and
  \<^verbatim>\<open>validationState\<close>, together with what the module has done to its surroundings:
  the messages sent to the host (oldest first), the listeners registered on the current
  editor instance (\<open>studioHandler\<close>, and \<open>debounceHandler\<close> with its wait; the
  selection-change listener is registered on every instance), the pending
  \<^verbatim>\<open>DOMContentLoaded\<close> listener, the number of editor instances constructed so far and
  the changes made to the document body.
\<close>

record 'q adapter =
  quill :: "'q option"
  properties :: "jsobject option"
  shouldForceFocus :: bool
  validationState :: validation
  sent :: "message list"
  studioHandler :: bool
  debounceHandler :: "jsval option"
  domReadyListener :: bool
  created :: nat
  domLog :: "dom_effect list"

definition initial :: "'q adapter" where
  "initial =
     \<lparr>quill = None, properties = None, shouldForceFocus = False,
      validationState = \<lparr>validated = False, isEmpty = False\<rparr>,
      sent = [], studioHandler = False, debounceHandler = None,
      domReadyListener = False, created = 0, domLog = []\<rparr>"

text \<open>
  A handler either returns, \<open>Inr\<close> with the state it leaves, or throws, \<open>Inl\<close> with
  the error and the state as it was when the error was thrown.
\<close>

type_synonym 'q result = "(js_error \<times> 'q adapter) + 'q adapter"

fun state_of :: "'q result \<Rightarrow> 'q adapter" where
  "state_of (Inl (e, st)) = st"
| "state_of (Inr st) = st"

section \<open>The functions of the module\<close>

text \<open>The object literal \<^verbatim>\<open>mutableProperties\<close> (lines 22 to 25).\<close>

definition mutableProperties :: jsobject where
  "mutableProperties = [(''content'', JBool True), (''readOnly'', JBool True)]"

definition delta :: "jsval list \<Rightarrow> jsval" where
  "delta ops = JObj [(''ops'', JArr ops)]"

definition getQueryable :: "'q quill_api \<Rightarrow> 'q adapter \<Rightarrow> queryable option" where
  "getQueryable L st =
     (case quill st of
        None \<Rightarrow> None
      | Some q \<Rightarrow>
          Some \<lparr>q_text = getText L q, q_html = getSemanticHTML L q,
                q_content = delta (getContents L q),
                q_validation = validationState st\<rparr>)"

text \<open>\<^verbatim>\<open>String.prototype.trim\<close> on code units below 256.\<close>

definition js_whitespace :: "char \<Rightarrow> bool" where
  "js_whitespace c =
     (c \<in> set [CHR 0x09, CHR 0x0A, CHR 0x0B, CHR 0x0C, CHR 0x0D, CHR 0x20, CHR 0xA0])"

definition trim :: "string \<Rightarrow> string" where
  "trim s = rev (dropWhile js_whitespace (rev (dropWhile js_whitespace s)))"

text \<open>
  \<^verbatim>\<open>target.k = v\<close> in strict mode (the file is an ES module): a type error on
  \<^verbatim>\<open>undefined\<close>, \<^verbatim>\<open>null\<close> and on a primitive; on a plain object the property is
  written. An array or a built-in accepts the assignment; the extra property is not
  kept in the model, since nothing reads it.
\<close>

fun assign_prop :: "jsval \<Rightarrow> string \<Rightarrow> jsval \<Rightarrow> jsval option" where
  "assign_prop (JObj kvs) k v = Some (JObj (obj_set kvs k v))"
| "assign_prop (JArr xs) k v = Some (JArr xs)"
| "assign_prop (JNative n) k v = Some (JNative n)"
| "assign_prop JUndefined k v = None"
| "assign_prop JNull k v = None"
| "assign_prop (JBool b) k v = None"
| "assign_prop (JNum n) k v = None"
| "assign_prop (JStr s) k v = None"

text \<open>\<^verbatim>\<open>d.ops\<close> of a delta.\<close>

definition delta_ops :: "jsval \<Rightarrow> jsval" where
  "delta_ops d = (case d of JObj kvs \<Rightarrow> obj_get kvs ''ops'' | _ \<Rightarrow> JUndefined)"

text \<open>
  \<^verbatim>\<open>validate\<close> (lines 41 to 53). The flags are written before the assignment to
  \<^verbatim>\<open>properties.content.ops\<close>, so they stay written when that assignment throws.
\<close>

definition validate :: "'q quill_api \<Rightarrow> 'q adapter \<Rightarrow> 'q result" where
  "validate L st =
     (case quill st of
        None \<Rightarrow> Inl (TypeError, st)
      | Some q \<Rightarrow>
          let trimmed = trim (getText L q);
              st1 = st\<lparr>validationState := \<lparr>validated = True, isEmpty = (length trimmed = 0)\<rparr>\<rparr>
          in (case getQueryable L st1 of
                None \<Rightarrow> Inl (TypeError, st1)
              | Some qy \<Rightarrow>
                  (case properties st1 of
                     None \<Rightarrow> Inl (TypeError, st1)
                   | Some ps \<Rightarrow>
                       (case assign_prop (obj_get ps ''content'') ''ops''
                               (delta_ops (q_content qy)) of
                          None \<Rightarrow> Inl (TypeError, st1)
                        | Some c \<Rightarrow>
                            Inr (st1\<lparr>properties := Some (obj_set ps ''content'' c),
                                     sent := sent st1 @
                                       [Updated None qy, Named ''onValidated'' qy]\<rparr>)))))"

text \<open>
  The branch of \<^verbatim>\<open>updateText\<close> that hands the payload to the editor: the
  \<^verbatim>\<open>typeof text === "string"\<close> test, and for a string the regular expression.
\<close>

definition applyContent :: "'q quill_api \<Rightarrow> jsval \<Rightarrow> 'q \<Rightarrow> 'q" where
  "applyContent L payload q =
     (case payload of
        JStr s \<Rightarrow>
          if rx_test htmlTagRegex s then dangerouslyPasteHTML L s q
          else setText L s q
      | _ \<Rightarrow> setContents L payload q)"

text \<open>
  \<^verbatim>\<open>updateText\<close> (lines 55 to 76). Without an editor the first call on \<^verbatim>\<open>quill\<close>
  throws.
\<close>

definition updateText :: "'q quill_api \<Rightarrow> jsval \<Rightarrow> 'q adapter \<Rightarrow> 'q result" where
  "updateText L payload st =
     (if \<not> truthy payload then Inr st
      else
        (case quill st of
           None \<Rightarrow> Inl (TypeError, st)
         | Some q \<Rightarrow>
             let shouldDisable =
                   (\<not> truthy (opt_get (properties st) ''readOnly'') \<and> \<not> hasFocus L q);
                 q1 = (if shouldDisable then enable L False q else q);
                 q2 = applyContent L payload q1;
                 q3 = (if shouldDisable then enable L True q2 else q2)
             in Inr (st\<lparr>quill := Some q3\<rparr>)))"

text \<open>\<^verbatim>\<open>updateQuill\<close> (lines 78 to 83).\<close>

definition updateQuill :: "'q quill_api \<Rightarrow> 'q adapter \<Rightarrow> 'q result" where
  "updateQuill L st =
     (case (if truthy (opt_get (properties st) ''content'')
            then updateText L (opt_get (properties st) ''content'') st
            else Inr st) of
        Inl e \<Rightarrow> Inl e
      | Inr st1 \<Rightarrow>
          (case quill st1 of
             None \<Rightarrow> Inl (TypeError, st1)
           | Some q \<Rightarrow>
               (case properties st1 of
                  None \<Rightarrow> Inl (TypeError, st1)
                | Some ps \<Rightarrow>
                    Inr (st1\<lparr>quill :=
                      Some (enable L (\<not> truthy (obj_get ps ''readOnly'')) q)\<rparr>))))"

text \<open>
  \<^verbatim>\<open>getToolbarOptions\<close> (lines 85 to 133): one group for each toolbar flag that is
  truthy, in the order of the source.
\<close>

definition toolbarGroup :: "jsobject option \<Rightarrow> string \<Rightarrow> jsval \<Rightarrow> jsval list" where
  "toolbarGroup ps flag grp = (if truthy (opt_get ps flag) then [grp] else [])"

definition getToolbarOptions :: "jsobject option \<Rightarrow> jsval list" where
  "getToolbarOptions ps =
     toolbarGroup ps ''toolbarHeader''
       (JArr [JObj [(''header'',
          JArr [JNum 1, JNum 2, JNum 3, JNum 4, JNum 5, JNum 6, JBool False])]])
     @ toolbarGroup ps ''toolbarStyle''
       (JArr [JStr ''bold'', JStr ''italic'', JStr ''underline'', JStr ''strike''])
     @ toolbarGroup ps ''toolbarBlock'' (JArr [JStr ''blockquote'', JStr ''code-block''])
     @ toolbarGroup ps ''toolbarMedia''
       (JArr [JStr ''link'', JStr ''image'', JStr ''video'', JStr ''formula''])
     @ toolbarGroup ps ''toolbarList''
       (JArr [JObj [(''list'', JStr ''ordered'')], JObj [(''list'', JStr ''bullet'')],
              JObj [(''list'', JStr ''check'')]])
     @ toolbarGroup ps ''toolbarScript''
       (JArr [JObj [(''script'', JStr ''sub'')], JObj [(''script'', JStr ''super'')]])
     @ toolbarGroup ps ''toolbarIndent''
       (JArr [JObj [(''indent'', JStr ''-1'')], JObj [(''indent'', JStr ''+1'')]])
     @ toolbarGroup ps ''toolbarDirection'' (JArr [JObj [(''direction'', JStr ''rtl'')]])
     @ toolbarGroup ps ''toolbarColor''
       (JArr [JObj [(''color'', JArr [])], JObj [(''background'', JArr [])]])
     @ toolbarGroup ps ''toolbarFont'' (JArr [JObj [(''font'', JArr [])]])
     @ toolbarGroup ps ''toolbarAlign'' (JArr [JObj [(''align'', JArr [])]])
     @ toolbarGroup ps ''toolbarClean'' (JArr [JStr ''clean''])
     @ toolbarGroup ps ''toolbarHistory'' (JArr [JStr ''undo'', JStr ''redo''])"

text \<open>The options object that \<^verbatim>\<open>initQuill\<close> passes to the constructor.\<close>

definition quillOptions :: "jsobject option \<Rightarrow> jsval" where
  "quillOptions ps =
     (let toolbar =
            (if truthy (opt_get ps ''toolbar'')
             then JObj [(''container'', JArr (getToolbarOptions ps)),
                        (''handlers'', JObj [(''undo'', JNative ''undo''),
                                             (''redo'', JNative ''redo'')])]
             else JBool False);
          options =
            [(''modules'', JObj [(''toolbar'', toolbar)]),
             (''history'', JObj [(''delay'', JNum 1000), (''maxStack'', JNum 100),
                                 (''userOnly'', JBool True)]),
             (''theme'', JStr ''snow'')]
      in JObj (if truthy (opt_get ps ''placeholder'')
               then obj_set options ''placeholder'' (opt_get ps ''placeholder'')
               else options))"

text \<open>\<^verbatim>\<open>const { scale = 1 } = PandaBridge.isStudio\<close>, for a truthy \<^verbatim>\<open>isStudio\<close>.\<close>

definition studioScale :: "jsval \<Rightarrow> jsval" where
  "studioScale isStudio =
     (case isStudio of
        JObj kvs \<Rightarrow> (if obj_get kvs ''scale'' = JUndefined then JNum 1 else obj_get kvs ''scale'')
      | _ \<Rightarrow> JNum 1)"

text \<open>
  \<^verbatim>\<open>initQuill\<close> (lines 135 to 211). The listeners of the instance that is replaced are removed with it;
  the new instance starts with none. \<open>isStudio\<close> is \<^verbatim>\<open>PandaBridge.isStudio\<close>.
\<close>

definition initQuill :: "'q quill_api \<Rightarrow> jsval \<Rightarrow> 'q adapter \<Rightarrow> 'q result" where
  "initQuill L isStudio st =
     (let ps = properties st;
          st1 = (if quill st \<noteq> None then st\<lparr>domLog := domLog st @ [ResetBody]\<rparr> else st);
          st2 = st1\<lparr>quill := Some (newQuill L (quillOptions ps)),
                    created := Suc (created st1),
                    studioHandler := False, debounceHandler := None\<rparr>;
          st3 = (if truthy isStudio
                 then st2\<lparr>domLog := domLog st2 @
                            [SetScale (studioScale isStudio),
                             SetScaleInverse (studioScale isStudio)],
                          studioHandler := True\<rparr>
                 else st2);
          st4 = (if truthy (opt_get ps ''debounce'')
                 then st3\<lparr>debounceHandler :=
                        Some (if truthy (opt_get ps ''debounceTime'')
                              then opt_get ps ''debounceTime'' else JNum 300)\<rparr>
                 else st3)
      in updateQuill L st4)"

section \<open>Listeners registered on the editor\<close>

text \<open>
  The text-change listener registered in the studio (lines 180 to 190): it sends the content property
  and the snapshot.
\<close>

definition onTextChangeStudio :: "'q quill_api \<Rightarrow> 'q adapter \<Rightarrow> 'q result" where
  "onTextChangeStudio L st =
     (case quill st of
        None \<Rightarrow> Inl (TypeError, st)
      | Some q \<Rightarrow>
          (case getQueryable L st of
             None \<Rightarrow> Inl (TypeError, st)
           | Some qy \<Rightarrow>
               Inr (st\<lparr>sent := sent st @ [Updated (Some (delta (getContents L q))) qy]\<rparr>)))"

text \<open>
  The selection-change listener (lines 201 to 208). \<open>rng\<close> and \<open>oldRange\<close> are the arguments of the
  event; \<open>JNull\<close> is no selection.
\<close>

definition onSelectionChange ::
    "'q quill_api \<Rightarrow> jsval \<Rightarrow> jsval \<Rightarrow> 'q adapter \<Rightarrow> 'q result" where
  "onSelectionChange L rng oldRange st =
     (if shouldForceFocus st \<or> (rng \<noteq> JNull \<and> oldRange = JNull)
      then
        (case getQueryable L st of
           None \<Rightarrow> Inl (TypeError, st)
         | Some qy \<Rightarrow>
             Inr (st\<lparr>sent := sent st @ [Named ''onFocused'' qy],
                     shouldForceFocus := False\<rparr>))
      else Inr st)"

section \<open>Handlers registered on the host bridge\<close>

text \<open>
  \<^verbatim>\<open>onLoad\<close> (lines 214 to 222); \<open>ready\<close> is
  \<^verbatim>\<open>document.readyState === "complete"\<close>.
\<close>

definition onLoad ::
    "'q quill_api \<Rightarrow> jsval \<Rightarrow> jsobject \<Rightarrow> bool \<Rightarrow> 'q adapter \<Rightarrow> 'q result" where
  "onLoad L isStudio ps ready st =
     (let st1 = st\<lparr>properties := Some ps\<rparr>
      in if ready then initQuill L isStudio st1
         else Inr (st1\<lparr>domReadyListener := True\<rparr>))"

text \<open>
  \<^verbatim>\<open>Object.keys(pandaData.properties).filter(key => !isEqual(properties[key],
  pandaData.properties[key]))\<close>, for loaded properties \<open>ps\<close>.
\<close>

definition diffKeys :: "jsobject \<Rightarrow> jsobject \<Rightarrow> string list" where
  "diffKeys ps pd = filter (\<lambda>key. \<not> isEqual (obj_get ps key) (obj_get pd key)) (map fst pd)"

text \<open>
  \<^verbatim>\<open>onUpdate\<close> (lines 224 to 241). Before the component is loaded \<^verbatim>\<open>properties\<close> is \<^verbatim>\<open>null\<close>, and
  the first key that is compared throws.
\<close>

definition onUpdate ::
    "'q quill_api \<Rightarrow> jsval \<Rightarrow> jsobject \<Rightarrow> 'q adapter \<Rightarrow> 'q result" where
  "onUpdate L isStudio pd st =
     (case properties st of
        None \<Rightarrow> if pd = [] then Inr st else Inl (TypeError, st)
      | Some ps \<Rightarrow>
          let dk = diffKeys ps pd
          in if length dk = 0 then Inr st
             else
               let changesIsOnlyMutable =
                     list_all (\<lambda>key. truthy (obj_get mutableProperties key)) dk;
                   st1 = st\<lparr>properties := Some pd\<rparr>
               in if changesIsOnlyMutable then updateQuill L st1
                  else initQuill L isStudio st1)"

text \<open>
  The listeners (lines 243 to 279). A listener of the bridge is called with the array of the event's arguments:
  \<^verbatim>\<open>([props]) => { const { text } = props || {}; ... }\<close>. The field names read this
  way (\<^verbatim>\<open>text\<close>, \<^verbatim>\<open>content\<close>) are on no built-in prototype, so a truthy value that
  is not a plain object gives undefined.
\<close>

definition firstArg :: "jsval list \<Rightarrow> jsval" where
  "firstArg args = (case args of [] \<Rightarrow> JUndefined | p # rest \<Rightarrow> p)"

definition fieldOf :: "jsval \<Rightarrow> string \<Rightarrow> jsval" where
  "fieldOf props k =
     (if truthy props
      then (case props of JObj kvs \<Rightarrow> obj_get kvs k | _ \<Rightarrow> JUndefined)
      else obj_get [] k)"

definition listen_validate :: "'q quill_api \<Rightarrow> 'q adapter \<Rightarrow> 'q result" where
  "listen_validate L st = validate L st"

definition listen_setText :: "'q quill_api \<Rightarrow> jsval list \<Rightarrow> 'q adapter \<Rightarrow> 'q result" where
  "listen_setText L args st =
     (let payload = fieldOf (firstArg args) ''text''
      in if quill st \<noteq> None then updateText L payload st else Inr st)"

definition listen_setContent :: "'q quill_api \<Rightarrow> jsval list \<Rightarrow> 'q adapter \<Rightarrow> 'q result" where
  "listen_setContent L args st =
     (let content = fieldOf (firstArg args) ''content''
      in if quill st \<noteq> None then updateText L content st else Inr st)"

definition listen_clearText :: "'q quill_api \<Rightarrow> 'q adapter \<Rightarrow> 'q result" where
  "listen_clearText L st =
     (if quill st \<noteq> None then updateText L (JStr []) st else Inr st)"

definition listen_focusText :: "'q quill_api \<Rightarrow> 'q adapter \<Rightarrow> 'q result" where
  "listen_focusText L st =
     (case quill st of
        None \<Rightarrow> Inr st
      | Some q \<Rightarrow>
          let st1 = st\<lparr>quill := Some (focus L q)\<rparr>
          in if shouldForceFocus st1
             then
               (case getQueryable L st1 of
                  None \<Rightarrow> Inl (TypeError, st1)
                | Some qy \<Rightarrow>
                    Inr (st1\<lparr>sent := sent st1 @ [Named ''onFocused'' qy],
                             shouldForceFocus := False\<rparr>))
             else Inr st1)"

section \<open>Events\<close>

text \<open>
  Everything that can call into the module: the window, the document, the host bridge
  (with \<^verbatim>\<open>document.readyState === "complete"\<close> at the time of the load), the editor
  instance, and the timer of the debounced listener when it runs the wrapped function.
  An event of the editor reaches only the listeners registered on the current instance;
  without an instance there is none.
\<close>

datatype event =
    WindowBlur
  | DOMContentLoaded
  | OnLoad jsobject bool
  | OnUpdate jsobject
  | Listen string "jsval list"
  | TextChange
  | SelectionChange jsval jsval
  | DebouncedCall

definition step :: "'q quill_api \<Rightarrow> jsval \<Rightarrow> event \<Rightarrow> 'q adapter \<Rightarrow> 'q result" where
  "step L isStudio ev st =
     (case ev of
        WindowBlur \<Rightarrow> Inr (st\<lparr>shouldForceFocus := True\<rparr>)
      | DOMContentLoaded \<Rightarrow>
          if domReadyListener st then initQuill L isStudio st else Inr st
      | OnLoad ps ready \<Rightarrow> onLoad L isStudio ps ready st
      | OnUpdate pd \<Rightarrow> onUpdate L isStudio pd st
      | Listen name args \<Rightarrow>
          if name = ''validate'' then listen_validate L st
          else if name = ''setText'' then listen_setText L args st
          else if name = ''setContent'' then listen_setContent L args st
          else if name = ''clearText'' then listen_clearText L st
          else if name = ''focusText'' then listen_focusText L st
          else Inr st
      | TextChange \<Rightarrow>
          if quill st \<noteq> None \<and> studioHandler st then onTextChangeStudio L st else Inr st
      | SelectionChange rng oldRange \<Rightarrow>
          if quill st \<noteq> None then onSelectionChange L rng oldRange st else Inr st
      | DebouncedCall \<Rightarrow>
          if quill st \<noteq> None \<and> debounceHandler st \<noteq> None then validate L st else Inr st)"

text \<open>
  A run of events. An error thrown by one handler ends that handler only: the next
  event finds the state as the failed handler left it.
\<close>

fun run :: "'q quill_api \<Rightarrow> jsval \<Rightarrow> event list \<Rightarrow> 'q adapter \<Rightarrow> 'q adapter" where
  "run L isStudio [] st = st"
| "run L isStudio (ev # evs) st = run L isStudio evs (state_of (step L isStudio ev st))"

section \<open>A reference editor\<close>

text \<open>
  A small editor on which the adapter can be run: it keeps the options it was built
  with, the operations of its document and the enabled and focus flags. Its text is
  the concatenation of the inserted strings; a document always ends with a newline.
\<close>

record simple_editor =
  ed_options :: jsval
  ed_ops :: "jsval list"
  ed_enabled :: bool
  ed_focused :: bool

fun insertOf :: "jsval \<Rightarrow> string" where
  "insertOf (JObj kvs) = (case map_of kvs ''insert'' of Some (JStr s) \<Rightarrow> s | _ \<Rightarrow> [])"
| "insertOf v = []"

definition withNewline :: "string \<Rightarrow> string" where
  "withNewline s = (if s \<noteq> [] \<and> last s = CHR 0x0A then s else s @ [CHR 0x0A])"

definition opsOf :: "jsval \<Rightarrow> jsval list" where
  "opsOf d =
     (case d of
        JArr ops \<Rightarrow> ops
      | JObj kvs \<Rightarrow> (case map_of kvs ''ops'' of Some (JArr ops) \<Rightarrow> ops | _ \<Rightarrow> [])
      | _ \<Rightarrow> [])"

fun stripTags :: "bool \<Rightarrow> string \<Rightarrow> string" where
  "stripTags inTag [] = []"
| "stripTags inTag (c # cs) =
     (if c = CHR ''<'' then stripTags True cs
      else if c = CHR ''>'' then stripTags False cs
      else if inTag then stripTags inTag cs
      else c # stripTags inTag cs)"

definition simpleText :: "simple_editor \<Rightarrow> string" where
  "simpleText q = withNewline (concat (map insertOf (ed_ops q)))"

definition simpleQuill :: "simple_editor quill_api" where
  "simpleQuill =
     \<lparr>newQuill = (\<lambda>opts. \<lparr>ed_options = opts, ed_ops = [], ed_enabled = True,
                          ed_focused = False\<rparr>),
      getText = simpleText,
      getSemanticHTML = (\<lambda>q. ''<p>'' @ butlast (simpleText q) @ ''</p>''),
      getContents = (\<lambda>q. [JObj [(''insert'', JStr (simpleText q))]]),
      hasFocus = ed_focused,
      enable = (\<lambda>b q. q\<lparr>ed_enabled := b\<rparr>),
      setText = (\<lambda>s q. q\<lparr>ed_ops := [JObj [(''insert'', JStr s)]]\<rparr>),
      dangerouslyPasteHTML =
        (\<lambda>h q. q\<lparr>ed_ops := [JObj [(''insert'', JStr (stripTags False h))]]\<rparr>),
      setContents = (\<lambda>d q. q\<lparr>ed_ops := opsOf d\<rparr>),
      focus = (\<lambda>q. q\<lparr>ed_focused := True\<rparr>)\<rparr>"

section \<open>Auxiliary notions for the statements\<close>

text \<open>The characters that \<^verbatim>\<open>[a-z]\<close> matches under the \<^verbatim>\<open>i\<close> flag.\<close>

definition asciiLetter :: "char \<Rightarrow> bool" where
  "asciiLetter c = atom_ok LetterIC c"

text \<open>
  \<^verbatim>\<open>typeof v\<close> is \<^verbatim>\<open>"object"\<close> or \<^verbatim>\<open>"function"\<close> and \<open>v\<close> is not \<^verbatim>\<open>null\<close>: the
  values on which a property can be written.
\<close>

fun isObject :: "jsval \<Rightarrow> bool" where
  "isObject (JObj kvs) = True"
| "isObject (JArr xs) = True"
| "isObject (JNative n) = True"
| "isObject v = False"

text \<open>
  The \<^verbatim>\<open>onFocused\<close> notifications among the messages sent so far, and the events
  that are a selection change from no selection to some selection.
\<close>

fun isFocusedMessage :: "message \<Rightarrow> bool" where
  "isFocusedMessage (Named n q) = (n = ''onFocused'')"
| "isFocusedMessage (Updated c q) = False"

definition focusCount :: "'q adapter \<Rightarrow> nat" where
  "focusCount st = length (filter isFocusedMessage (sent st))"

fun focusTransition :: "event \<Rightarrow> bool" where
  "focusTransition (SelectionChange rng oldRange) = (rng \<noteq> JNull \<and> oldRange = JNull)"
| "focusTransition ev = False"

section \<open>Example states\<close>

text \<open>
  A state reached from the initial one by loading the component in a complete document,
  with a structured content, and the editor instance it holds.
\<close>

definition exampleProperties :: jsobject where
  "exampleProperties =
     [(''content'', JObj [(''ops'', JArr [JObj [(''insert'', JStr ''hello'')]])]),
      (''readOnly'', JBool False), (''toolbar'', JBool True), (''toolbarStyle'', JBool True)]"

definition exampleEditor :: simple_editor where
  "exampleEditor =
     \<lparr>ed_options = quillOptions (Some exampleProperties),
      ed_ops = [JObj [(''insert'', JStr ''hello'')]],
      ed_enabled = True, ed_focused = False\<rparr>"

definition exampleState :: "simple_editor adapter" where
  "exampleState = run simpleQuill (JBool False) [OnLoad exampleProperties True] initial"

text \<open>The same load with a plain string as content.\<close>

definition stringContentState :: "simple_editor adapter" where
  "stringContentState =
     run simpleQuill (JBool False)
       [OnLoad [(''content'', JStr ''hello'')] True] initial"

definition stringContentEditor :: simple_editor where
  "stringContentEditor =
     \<lparr>ed_options = quillOptions (Some [(''content'', JStr ''hello'')]),
      ed_ops = [JObj [(''insert'', JStr ''hello'')]],
      ed_enabled = True, ed_focused = False\<rparr>"

text \<open>The example properties with the content replaced by the empty string.\<close>

definition emptyContentProperties :: jsobject where
  "emptyContentProperties =
     [(''content'', JStr []), (''readOnly'', JBool False), (''toolbar'', JBool True),
      (''toolbarStyle'', JBool True)]"

text \<open>
  The example properties with one more key, whose name is that of a property every plain
  object inherits.
\<close>

definition constructorUpdate :: jsobject where
  "constructorUpdate = exampleProperties @ [(''constructor'', JStr ''x'')]"

section \<open>Basic facts\<close>

lemma map_of_obj_set: "map_of (obj_set kvs k v) k = Some v"
  by (induction kvs k v rule: obj_set.induct) auto

lemma obj_get_obj_set: "obj_get (obj_set kvs k v) k = v"
  by (simp add: obj_get_def map_of_obj_set)

lemmas adapter_defs = step_def onLoad_def initQuill_def updateQuill_def updateText_def
  applyContent_def quillOptions_def getToolbarOptions_def toolbarGroup_def opt_get_def
  obj_get_def objectPrototypeKeys_def simpleQuill_def opsOf_def initial_def Let_def

lemma exampleState_eq:
  "exampleState =
     \<lparr>quill = Some exampleEditor,
      properties = Some exampleProperties, shouldForceFocus = False,
      validationState = \<lparr>validated = False, isEmpty = False\<rparr>,
      sent = [], studioHandler = False, debounceHandler = None,
      domReadyListener = False, created = 1, domLog = []\<rparr>"
  by (simp add: exampleState_def exampleEditor_def exampleProperties_def adapter_defs)

lemma stringContentState_eq:
  "stringContentState =
     \<lparr>quill = Some stringContentEditor,
      properties = Some [(''content'', JStr ''hello'')], shouldForceFocus = False,
      validationState = \<lparr>validated = False, isEmpty = False\<rparr>,
      sent = [], studioHandler = False, debounceHandler = None,
      domReadyListener = False, created = 1, domLog = []\<rparr>"
  by (simp add: stringContentState_def stringContentEditor_def adapter_defs htmlTagRegex_def)

lemma assign_prop_isObject: "isObject v \<Longrightarrow> \<exists>c. assign_prop v k x = Some c"
  by (cases v) simp_all

lemma delta_ops_delta: "delta_ops (delta ops) = JArr ops"
  by (simp add: delta_ops_def delta_def obj_get_def)

subsection \<open>The language of the regular expression\<close>

text \<open>
  The matcher accepts a string exactly when it holds \<^verbatim>\<open><\<close>, optionally \<^verbatim>\<open>/\<close>, a
  letter and, anywhere after the letter, \<^verbatim>\<open>>\<close>.
\<close>

lemma rx_match_star_any: "rx_match [Star AnyChar, One (Chr d)] s = (d \<in> set s)"
  by (induction s) auto

lemma rx_match_tail:
  "rx_match [One LetterIC, Star AnyChar, One (Chr d)] s =
     (\<exists>c rest. s = c # rest \<and> asciiLetter c \<and> d \<in> set rest)"
  using rx_match_star_any [of d] by (cases s) (simp_all add: asciiLetter_def)

lemma rx_match_htmlTagRegex:
  "rx_match htmlTagRegex s =
     (\<exists>c rest. asciiLetter c \<and> CHR ''>'' \<in> set rest \<and>
        (s = CHR ''<'' # c # rest \<or> s = CHR ''<'' # CHR ''/'' # c # rest))"
proof (cases s)
  case Nil
  then show ?thesis by (simp add: htmlTagRegex_def)
next
  case (Cons a t)
  have "rx_match htmlTagRegex (a # t) =
      (a = CHR ''<'' \<and>
        ((\<exists>t'. t = CHR ''/'' # t' \<and> rx_match [One LetterIC, Star AnyChar, One (Chr CHR ''>'')] t') \<or>
         rx_match [One LetterIC, Star AnyChar, One (Chr CHR ''>'')] t))"
    by (cases t) (simp_all add: htmlTagRegex_def del: rx_match.simps(2,4)
        add: rx_match.simps(2) [of "Chr c" for c])
  then show ?thesis
    unfolding Cons rx_match_tail by auto
qed

lemma rx_test_iff: "rx_test p s = (\<exists>pre suf. s = pre @ suf \<and> rx_match p suf)"
proof (induction s)
  case Nil
  then show ?case by simp
next
  case (Cons a s)
  note IH = Cons.IH
  show ?case
  proof
    assume "rx_test p (a # s)"
    then have "rx_match p (a # s) \<or> rx_test p s"
      by (simp only: rx_test.simps)
    then show "\<exists>pre suf. a # s = pre @ suf \<and> rx_match p suf"
    proof
      assume "rx_match p (a # s)"
      then have "a # s = [] @ (a # s) \<and> rx_match p (a # s)"
        by simp
      then show ?thesis
        by blast
    next
      assume "rx_test p s"
      with IH obtain pre suf where "s = pre @ suf" and m: "rx_match p suf"
        by blast
      then have "a # s = (a # pre) @ suf"
        by simp
      with m show ?thesis
        by blast
    qed
  next
    assume "\<exists>pre suf. a # s = pre @ suf \<and> rx_match p suf"
    then obtain pre suf where ps: "a # s = pre @ suf" and m: "rx_match p suf"
      by blast
    have "rx_match p (a # s) \<or> rx_test p s"
    proof (cases pre)
      case Nil
      with ps m show ?thesis
        by simp
    next
      case (Cons b pre')
      with ps have "s = pre' @ suf"
        by simp
      with m IH show ?thesis
        by blast
    qed
    then show "rx_test p (a # s)"
      by (simp only: rx_test.simps)
  qed
qed

lemma htmlTagRegex_language:
  "rx_test htmlTagRegex s =
     (\<exists>pre c rest. asciiLetter c \<and> CHR ''>'' \<in> set rest \<and>
        (s = pre @ CHR ''<'' # c # rest \<or> s = pre @ CHR ''<'' # CHR ''/'' # c # rest))"
  unfolding rx_test_iff rx_match_htmlTagRegex by blast

subsection \<open>What the functions leave alone\<close>

lemma updateText_frame:
  "sent (state_of (updateText L p st)) = sent st \<and>
   shouldForceFocus (state_of (updateText L p st)) = shouldForceFocus st \<and>
   created (state_of (updateText L p st)) = created st"
  by (simp add: updateText_def Let_def split: option.split)

lemma updateQuill_frame:
  "sent (state_of (updateQuill L st)) = sent st \<and>
   shouldForceFocus (state_of (updateQuill L st)) = shouldForceFocus st \<and>
   created (state_of (updateQuill L st)) = created st"
proof (cases "truthy (opt_get (properties st) ''content'')")
  case False
  then show ?thesis
    by (simp add: updateQuill_def split: option.split)
next
  case True
  show ?thesis
  proof (cases "updateText L (opt_get (properties st) ''content'') st")
    case (Inl e)
    with True updateText_frame [of L "opt_get (properties st) ''content''" st]
    show ?thesis
      by (simp add: updateQuill_def)
  next
    case (Inr st1)
    with True updateText_frame [of L "opt_get (properties st) ''content''" st]
    show ?thesis
      by (simp add: updateQuill_def split: option.split)
  qed
qed

lemma initQuill_frame:
  "sent (state_of (initQuill L isStudio st)) = sent st \<and>
   shouldForceFocus (state_of (initQuill L isStudio st)) = shouldForceFocus st \<and>
   created (state_of (initQuill L isStudio st)) = Suc (created st)"
  by (simp add: initQuill_def Let_def updateQuill_frame)

lemma validate_frame:
  "focusCount (state_of (validate L st)) = focusCount st \<and>
   shouldForceFocus (state_of (validate L st)) = shouldForceFocus st"
  by (simp add: validate_def Let_def focusCount_def split: option.split)

lemma onUpdate_frame:
  "sent (state_of (onUpdate L isStudio pd st)) = sent st \<and>
   shouldForceFocus (state_of (onUpdate L isStudio pd st)) = shouldForceFocus st"
  by (simp add: onUpdate_def Let_def updateQuill_frame initQuill_frame split: option.split)

lemma updateText_focus: "focusCount (state_of (updateText L p st)) = focusCount st"
  by (simp add: focusCount_def updateText_frame)

lemma listen_focusText_focus:
  "(focusCount (state_of (listen_focusText L st)) = focusCount st \<and>
    shouldForceFocus (state_of (listen_focusText L st)) = shouldForceFocus st) \<or>
   (focusCount (state_of (listen_focusText L st)) = Suc (focusCount st) \<and>
    \<not> shouldForceFocus (state_of (listen_focusText L st)) \<and> shouldForceFocus st)"
  by (simp add: listen_focusText_def getQueryable_def focusCount_def Let_def
      split: option.split)

lemma step_focus_cases:
  "(focusCount (state_of (step L isStudio ev st)) = focusCount st \<and>
    shouldForceFocus (state_of (step L isStudio ev st)) =
      (shouldForceFocus st \<or> ev = WindowBlur)) \<or>
   (focusCount (state_of (step L isStudio ev st)) = Suc (focusCount st) \<and>
    \<not> shouldForceFocus (state_of (step L isStudio ev st)) \<and> ev \<noteq> WindowBlur \<and>
    (shouldForceFocus st \<or> focusTransition ev))"
proof (cases ev)
  case WindowBlur
  then show ?thesis by (simp add: step_def focusCount_def)
next
  case DOMContentLoaded
  then show ?thesis by (simp add: step_def focusCount_def initQuill_frame)
next
  case (OnLoad ps ready)
  then show ?thesis by (simp add: step_def focusCount_def onLoad_def Let_def initQuill_frame)
next
  case (OnUpdate pd)
  then show ?thesis by (simp add: step_def focusCount_def onUpdate_frame)
next
  case (Listen name args)
  with listen_focusText_focus [of L st] show ?thesis
    by (auto simp add: step_def listen_validate_def validate_frame listen_setText_def
        listen_setContent_def listen_clearText_def Let_def updateText_frame
        updateText_focus)
next
  case TextChange
  then show ?thesis
    by (simp add: step_def onTextChangeStudio_def getQueryable_def focusCount_def
        split: option.split)
next
  case (SelectionChange rng oldRange)
  then show ?thesis
    by (simp add: step_def onSelectionChange_def getQueryable_def focusCount_def
        split: option.split)
next
  case DebouncedCall
  then show ?thesis by (simp add: step_def validate_frame)
qed

lemma step_focus_transition:
  "quill st \<noteq> None \<Longrightarrow> focusTransition ev \<Longrightarrow>
   focusCount (state_of (step L isStudio ev st)) = Suc (focusCount st)"
  by (cases ev) (auto simp add: step_def onSelectionChange_def getQueryable_def focusCount_def)

lemma run_focus_potential:
  "focusCount (run L isStudio evs st) +
     (if shouldForceFocus (run L isStudio evs st) then 1 else 0) \<le>
   focusCount st + length (filter focusTransition evs) +
     length (filter (\<lambda>e. e = WindowBlur) evs) + (if shouldForceFocus st then 1 else 0)"
proof (induction evs arbitrary: st)
  case Nil
  then show ?case by simp
next
  case (Cons ev evs)
  from step_focus_cases [of L isStudio ev st] Cons.IH [of "state_of (step L isStudio ev st)"]
  show ?case
    by (auto split: if_splits)
qed

text \<open>
  The listener for the debounced validation is registered exactly when the
  \<^verbatim>\<open>debounce\<close> property is truthy, with the wait \<^verbatim>\<open>properties.debounceTime || 300\<close>.
\<close>

lemma initQuill_debounceHandler:
  "debounceHandler (state_of (initQuill L isStudio st)) =
     (if truthy (opt_get (properties st) ''debounce'')
      then Some (if truthy (opt_get (properties st) ''debounceTime'')
                 then opt_get (properties st) ''debounceTime'' else JNum 300)
      else None)"
proof -
  have u: "debounceHandler (state_of (updateText L p s)) = debounceHandler s" for p s
    by (simp add: updateText_def Let_def split: option.split)
  have "debounceHandler (state_of (updateQuill L s)) = debounceHandler s" for s
  proof (cases "truthy (opt_get (properties s) ''content'')")
    case False
    then show ?thesis
      by (simp add: updateQuill_def split: option.split)
  next
    case True
    with u [of "opt_get (properties s) ''content''" s] show ?thesis
      by (cases "updateText L (opt_get (properties s) ''content'') s")
        (simp_all add: updateQuill_def split: option.split)
  qed
  then show ?thesis
    by (simp add: initQuill_def Let_def)
qed

section \<open>Property reconciliation\<close>

text \<open>
  How \<^verbatim>\<open>onUpdate\<close> chooses, once properties are loaded: nothing when no key of the
  update differs; the in-place refresh when \<^verbatim>\<open>mutableProperties[key]\<close> is truthy for
  every changed key, which it is for \<^verbatim>\<open>content\<close>, \<^verbatim>\<open>readOnly\<close> and for every name
  that a plain object inherits; the reinitialization otherwise.
\<close>

lemma onUpdate_dispatch:
  assumes "properties st = Some ps"
  shows "onUpdate L isStudio pd st =
           (if diffKeys ps pd = [] then Inr st
            else if list_all (\<lambda>key. key \<in> set (map fst mutableProperties) \<or>
                        key \<in> set objectPrototypeKeys) (diffKeys ps pd)
            then updateQuill L (st\<lparr>properties := Some pd\<rparr>)
            else initQuill L isStudio (st\<lparr>properties := Some pd\<rparr>))"
proof -
  have "truthy (obj_get mutableProperties key) =
      (key \<in> set (map fst mutableProperties) \<or> key \<in> set objectPrototypeKeys)" for key
    by (simp add: obj_get_def mutableProperties_def)
  with assms show ?thesis
    by (simp add: onUpdate_def Let_def)
qed

text \<open>
  Claim C1, at an input where the code departs from it. The loaded properties have no
  own key \<^verbatim>\<open>constructor\<close>; the update adds one. The only changed key is
  \<^verbatim>\<open>constructor\<close>, which is not in the mutable set, and still \<^verbatim>\<open>onUpdate\<close> runs
  \<^verbatim>\<open>updateQuill\<close> and keeps the editor instance (no instance is constructed), because
  \<^verbatim>\<open>mutableProperties["constructor"]\<close> is the inherited \<^verbatim>\<open>Object\<close> function, which is
  truthy. The claim asks for \<^verbatim>\<open>initQuill\<close> here.
\<close>

theorem inherited_key_update_skips_reinit:
  "diffKeys exampleProperties constructorUpdate = [''constructor''] \<and>
   ''constructor'' \<notin> set (map fst mutableProperties) \<and>
   onUpdate simpleQuill (JBool False) constructorUpdate exampleState =
     updateQuill simpleQuill (exampleState\<lparr>properties := Some constructorUpdate\<rparr>) \<and>
   created (state_of (onUpdate simpleQuill (JBool False) constructorUpdate exampleState)) =
     created exampleState \<and>
   onUpdate simpleQuill (JBool False) constructorUpdate exampleState \<noteq>
     initQuill simpleQuill (JBool False) (exampleState\<lparr>properties := Some constructorUpdate\<rparr>)"
proof -
  have d: "diffKeys exampleProperties constructorUpdate = [''constructor'']"
    by (simp add: diffKeys_def constructorUpdate_def exampleProperties_def obj_get_def
        objectPrototypeKeys_def)
  have p: "properties exampleState = Some exampleProperties"
    by (simp add: exampleState_eq)
  have u: "onUpdate simpleQuill (JBool False) constructorUpdate exampleState =
     updateQuill simpleQuill (exampleState\<lparr>properties := Some constructorUpdate\<rparr>)"
    by (simp add: onUpdate_dispatch [OF p] d objectPrototypeKeys_def)
  have "created (state_of (initQuill simpleQuill (JBool False)
       (exampleState\<lparr>properties := Some constructorUpdate\<rparr>))) \<noteq>
     created (state_of (updateQuill simpleQuill
       (exampleState\<lparr>properties := Some constructorUpdate\<rparr>)))"
    by (simp add: initQuill_frame updateQuill_frame)
  then have "updateQuill simpleQuill (exampleState\<lparr>properties := Some constructorUpdate\<rparr>) \<noteq>
     initQuill simpleQuill (JBool False) (exampleState\<lparr>properties := Some constructorUpdate\<rparr>)"
    by metis
  with d u show ?thesis
    by (simp add: updateQuill_frame mutableProperties_def)
qed

section \<open>Content assignment\<close>

text \<open>
  Claim C2. A truthy payload given to \<^verbatim>\<open>updateText\<close> while an editor exists reaches
  exactly one entry point of the editor: a string that the regular expression
  \<^verbatim>\<open>/<\/?[a-z][\s\S]*>/i\<close> matches goes to \<^verbatim>\<open>clipboard.dangerouslyPasteHTML\<close>, any
  other string to \<^verbatim>\<open>setText\<close>, and a value that is not a string to
  \<^verbatim>\<open>setContents\<close>; the call is bracketed by the two \<^verbatim>\<open>enable\<close> calls when
  interaction has to be switched off. The expression matches \<^verbatim>\<open><b>hi</b>\<close> and does
  not match \<^verbatim>\<open>hi\<close>.
\<close>

theorem updateText_routes:
  assumes "truthy payload" and "quill st = Some q"
  shows "updateText L payload st =
           Inr (st\<lparr>quill := Some
             ((if \<not> truthy (opt_get (properties st) ''readOnly'') \<and> \<not> hasFocus L q
               then enable L True else id)
              ((case payload of
                  JStr s \<Rightarrow>
                    if rx_test htmlTagRegex s then dangerouslyPasteHTML L s else setText L s
                | _ \<Rightarrow> setContents L payload)
               ((if \<not> truthy (opt_get (properties st) ''readOnly'') \<and> \<not> hasFocus L q
                 then enable L False else id) q)))\<rparr>) \<and>
         rx_test htmlTagRegex ''<b>hi</b>'' \<and> \<not> rx_test htmlTagRegex ''hi''"
  using assms
  by (cases payload) (simp_all add: updateText_def applyContent_def Let_def htmlTagRegex_def)

theorem updateText_routes_witness:
  "truthy (JStr ''<b>hi</b>'') \<and> quill exampleState = Some exampleEditor \<and>
   updateText simpleQuill (JStr ''<b>hi</b>'') exampleState =
     Inr (exampleState\<lparr>quill :=
       Some (enable simpleQuill True
         (dangerouslyPasteHTML simpleQuill ''<b>hi</b>''
            (enable simpleQuill False exampleEditor)))\<rparr>)"
proof -
  have q: "quill exampleState = Some exampleEditor"
    by (simp add: exampleState_eq)
  have ro: "\<not> truthy (opt_get (properties exampleState) ''readOnly'')"
    by (simp add: exampleState_eq exampleProperties_def opt_get_def obj_get_def)
  have nf: "\<not> hasFocus simpleQuill exampleEditor"
    by (simp add: simpleQuill_def exampleEditor_def)
  have t: "truthy (JStr ''<b>hi</b>'')"
    by simp
  from updateText_routes [OF t q, of simpleQuill] ro nf t q show ?thesis
    by (simp add: htmlTagRegex_def)
qed

text \<open>
  Claim C6. While \<^verbatim>\<open>updateText\<close> applies a payload: if the configuration is not
  read-only and the editor does not have the focus, the editor is disabled before the
  content is applied and enabled again right after it; otherwise \<^verbatim>\<open>updateText\<close>
  makes no \<^verbatim>\<open>enable\<close> call at all.
\<close>

theorem updateText_guards_interaction:
  assumes "truthy payload" and "quill st = Some q"
  shows "(\<not> truthy (opt_get (properties st) ''readOnly'') \<and> \<not> hasFocus L q \<longrightarrow>
            updateText L payload st =
              Inr (st\<lparr>quill :=
                Some (enable L True (applyContent L payload (enable L False q)))\<rparr>)) \<and>
         (truthy (opt_get (properties st) ''readOnly'') \<or> hasFocus L q \<longrightarrow>
            updateText L payload st = Inr (st\<lparr>quill := Some (applyContent L payload q)\<rparr>))"
  using assms by (auto simp add: updateText_def Let_def)

theorem updateText_guards_interaction_witness:
  "truthy (JStr ''hi'') \<and> quill exampleState = Some exampleEditor \<and>
   \<not> truthy (opt_get (properties exampleState) ''readOnly'') \<and>
   \<not> hasFocus simpleQuill exampleEditor \<and>
   updateText simpleQuill (JStr ''hi'') exampleState =
     Inr (exampleState\<lparr>quill :=
       Some (enable simpleQuill True
         (applyContent simpleQuill (JStr ''hi'') (enable simpleQuill False exampleEditor)))\<rparr>) \<and>
   hasFocus simpleQuill (focus simpleQuill exampleEditor) \<and>
   updateText simpleQuill (JStr ''hi'') (exampleState\<lparr>quill := Some (focus simpleQuill exampleEditor)\<rparr>) =
     Inr (exampleState\<lparr>quill :=
       Some (applyContent simpleQuill (JStr ''hi'') (focus simpleQuill exampleEditor))\<rparr>)"
proof -
  have q: "quill exampleState = Some exampleEditor"
    by (simp add: exampleState_eq)
  have ro: "\<not> truthy (opt_get (properties exampleState) ''readOnly'')"
    by (simp add: exampleState_eq exampleProperties_def opt_get_def obj_get_def)
  have nf: "\<not> hasFocus simpleQuill exampleEditor"
    by (simp add: simpleQuill_def exampleEditor_def)
  have f: "hasFocus simpleQuill (focus simpleQuill exampleEditor)"
    by (simp add: simpleQuill_def)
  have t: "truthy (JStr ''hi'')"
    by simp
  have q': "quill (exampleState\<lparr>quill := Some (focus simpleQuill exampleEditor)\<rparr>) =
      Some (focus simpleQuill exampleEditor)"
    by simp
  from updateText_guards_interaction [OF t q, of simpleQuill]
    updateText_guards_interaction [OF t q', of simpleQuill] ro nf f t q
  show ?thesis
    by simp
qed

section \<open>Validation\<close>

text \<open>
  Claim C3, as stated, fails on this run: the component is loaded with the content
  \<^verbatim>\<open>hello\<close>, the host then sets the content to the empty string and triggers
  \<^verbatim>\<open>validate\<close>. The empty content is skipped by \<^verbatim>\<open>updateQuill\<close>, so the editor still
  shows \<^verbatim>\<open>hello\<close>; \<^verbatim>\<open>validate\<close> sets \<open>isEmpty\<close> to false and then throws on the
  assignment to \<^verbatim>\<open>properties.content.ops\<close> before anything is sent.
\<close>

theorem validate_after_empty_content_counterexample:
  "\<not> isEmpty (validationState (run simpleQuill (JBool False)
        [OnLoad [(''content'', JStr ''hello'')] True,
         OnUpdate [(''content'', JStr [])],
         Listen ''validate'' []] initial)) \<and>
   sent (run simpleQuill (JBool False)
        [OnLoad [(''content'', JStr ''hello'')] True,
         OnUpdate [(''content'', JStr [])],
         Listen ''validate'' []] initial) = [] \<and>
   map_option (getText simpleQuill) (quill (run simpleQuill (JBool False)
        [OnLoad [(''content'', JStr ''hello'')] True,
         OnUpdate [(''content'', JStr [])],
         Listen ''validate'' []] initial)) = Some (''hello'' @ [CHR 0x0A])"
proof -
  have 1: "run simpleQuill (JBool False)
        [OnLoad [(''content'', JStr ''hello'')] True] initial = stringContentState"
    by (simp add: stringContentState_def)
  have 2: "step simpleQuill (JBool False) (OnUpdate [(''content'', JStr [])])
      stringContentState =
      Inr (stringContentState\<lparr>properties := Some [(''content'', JStr [])]\<rparr>)"
    by (simp add: stringContentState_eq stringContentEditor_def step_def onUpdate_def
        diffKeys_def mutableProperties_def updateQuill_def opt_get_def obj_get_def
        objectPrototypeKeys_def simpleQuill_def)
  have 3: "step simpleQuill (JBool False) (Listen ''validate'' [])
      (stringContentState\<lparr>properties := Some [(''content'', JStr [])]\<rparr>) =
      Inl (TypeError, stringContentState\<lparr>properties := Some [(''content'', JStr [])],
        validationState := \<lparr>validated = True, isEmpty = False\<rparr>\<rparr>)"
    by (simp add: stringContentState_eq stringContentEditor_def step_def
        listen_validate_def validate_def getQueryable_def obj_get_def simpleQuill_def
        simpleText_def withNewline_def trim_def js_whitespace_def Let_def)
  have "run simpleQuill (JBool False)
        [OnLoad [(''content'', JStr ''hello'')] True,
         OnUpdate [(''content'', JStr [])],
         Listen ''validate'' []] initial =
      stringContentState\<lparr>properties := Some [(''content'', JStr [])],
        validationState := \<lparr>validated = True, isEmpty = False\<rparr>\<rparr>"
    using 1 2 3 by simp
  then show ?thesis
    by (simp add: stringContentState_eq stringContentEditor_def simpleQuill_def
        simpleText_def withNewline_def)
qed

text \<open>
  Claim C3, amended. A call to \<^verbatim>\<open>validate\<close> made while an editor exists and the
  stored content is an object sets \<open>validated\<close>, sets \<open>isEmpty\<close> to whether the trimmed
  text of the editor has length zero, and sends \<^verbatim>\<open>UPDATED\<close> and \<^verbatim>\<open>onValidated\<close>, both
  with the snapshot of the editor and of these flags; the editor is not touched. An
  empty string given to \<^verbatim>\<open>setContent\<close> or \<^verbatim>\<open>setText\<close> changes nothing, so a
  validation after it reports the text that was already there.
\<close>

theorem validate_flags_and_events:
  assumes "quill st = Some q" and "properties st = Some ps"
    and "isObject (obj_get ps ''content'')"
  shows "(\<exists>st' qy. validate L st = Inr st' \<and>
            validated (validationState st') \<and>
            isEmpty (validationState st') = (length (trim (getText L q)) = 0) \<and>
            qy = \<lparr>q_text = getText L q, q_html = getSemanticHTML L q,
                  q_content = delta (getContents L q),
                  q_validation = validationState st'\<rparr> \<and>
            sent st' = sent st @ [Updated None qy, Named ''onValidated'' qy] \<and>
            quill st' = quill st) \<and>
         listen_setContent L [JObj [(''content'', JStr [])]] st = Inr st \<and>
         listen_setText L [JObj [(''text'', JStr [])]] st = Inr st"
proof -
  from assms(3) obtain c where
    c: "assign_prop (obj_get ps ''content'') ''ops'' (JArr (getContents L q)) = Some c"
    using assign_prop_isObject by blast
  have "\<exists>st' qy. validate L st = Inr st' \<and>
            validated (validationState st') \<and>
            isEmpty (validationState st') = (length (trim (getText L q)) = 0) \<and>
            qy = \<lparr>q_text = getText L q, q_html = getSemanticHTML L q,
                  q_content = delta (getContents L q),
                  q_validation = validationState st'\<rparr> \<and>
            sent st' = sent st @ [Updated None qy, Named ''onValidated'' qy] \<and>
            quill st' = quill st"
    using assms(1,2) c
    by (simp add: validate_def getQueryable_def Let_def delta_ops_delta)
  moreover have "listen_setContent L [JObj [(''content'', JStr [])]] st = Inr st"
    by (simp add: listen_setContent_def firstArg_def fieldOf_def obj_get_def updateText_def)
  moreover have "listen_setText L [JObj [(''text'', JStr [])]] st = Inr st"
    by (simp add: listen_setText_def firstArg_def fieldOf_def obj_get_def updateText_def)
  ultimately show ?thesis
    by blast
qed

theorem validate_flags_and_events_witness:
  "quill exampleState = Some exampleEditor \<and>
   properties exampleState = Some exampleProperties \<and>
   isObject (obj_get exampleProperties ''content'') \<and>
   (\<exists>st' qy. validate simpleQuill exampleState = Inr st' \<and>
      validated (validationState st') \<and>
      isEmpty (validationState st') = (length (trim (getText simpleQuill exampleEditor)) = 0) \<and>
      qy = \<lparr>q_text = getText simpleQuill exampleEditor,
            q_html = getSemanticHTML simpleQuill exampleEditor,
            q_content = delta (getContents simpleQuill exampleEditor),
            q_validation = validationState st'\<rparr> \<and>
      sent st' = sent exampleState @ [Updated None qy, Named ''onValidated'' qy] \<and>
      quill st' = quill exampleState) \<and>
   listen_setContent simpleQuill [JObj [(''content'', JStr [])]] exampleState =
     Inr exampleState \<and>
   listen_setText simpleQuill [JObj [(''text'', JStr [])]] exampleState = Inr exampleState"
proof -
  have q: "quill exampleState = Some exampleEditor"
    and p: "properties exampleState = Some exampleProperties"
    by (simp_all add: exampleState_eq)
  have c: "isObject (obj_get exampleProperties ''content'')"
    by (simp add: exampleProperties_def obj_get_def)
  from validate_flags_and_events [OF q p c, of simpleQuill] q p c show ?thesis
    by blast
qed

text \<open>
  Claim C9. \<^verbatim>\<open>validate\<close> always goes on to assign \<^verbatim>\<open>properties.content.ops\<close>. When
  the stored content is a plain object the call returns, both messages are sent, and
  afterwards \<^verbatim>\<open>properties.content.ops\<close> is the \<^verbatim>\<open>ops\<close> of the content in the snapshot
  that was sent, which is the editor's. When the stored content is absent or a string
  the call throws a type error: nothing is sent and the properties are unchanged.
\<close>

theorem validate_assigns_ops:
  "(quill st = Some q \<and> properties st = Some ps \<and> obj_get ps ''content'' = JObj c \<longrightarrow>
      (\<exists>st' qy. validate L st = Inr st' \<and>
         sent st' = sent st @ [Updated None qy, Named ''onValidated'' qy] \<and>
         delta_ops (opt_get (properties st') ''content'') = delta_ops (q_content qy) \<and>
         delta_ops (q_content qy) = JArr (getContents L q))) \<and>
   (opt_get (properties st) ''content'' = JUndefined \<or>
    opt_get (properties st) ''content'' = JStr s \<longrightarrow>
      (\<exists>st'. validate L st = Inl (TypeError, st') \<and> sent st' = sent st \<and>
         properties st' = properties st))"
proof (intro conjI impI)
  assume a: "quill st = Some q \<and> properties st = Some ps \<and> obj_get ps ''content'' = JObj c"
  then show "\<exists>st' qy. validate L st = Inr st' \<and>
         sent st' = sent st @ [Updated None qy, Named ''onValidated'' qy] \<and>
         delta_ops (opt_get (properties st') ''content'') = delta_ops (q_content qy) \<and>
         delta_ops (q_content qy) = JArr (getContents L q)"
    by (simp add: validate_def getQueryable_def Let_def opt_get_def obj_get_obj_set
        delta_ops_delta) (simp add: delta_ops_def obj_get_obj_set)
next
  assume b: "opt_get (properties st) ''content'' = JUndefined \<or>
    opt_get (properties st) ''content'' = JStr s"
  then show "\<exists>st'. validate L st = Inl (TypeError, st') \<and> sent st' = sent st \<and>
         properties st' = properties st"
    by (auto simp add: validate_def getQueryable_def Let_def opt_get_def
        split: option.splits)
qed

theorem validate_assigns_ops_witness:
  "quill exampleState = Some exampleEditor \<and>
   properties exampleState = Some exampleProperties \<and>
   obj_get exampleProperties ''content'' =
     JObj [(''ops'', JArr [JObj [(''insert'', JStr ''hello'')]])] \<and>
   (\<exists>st' qy. validate simpleQuill exampleState = Inr st' \<and>
      sent st' = sent exampleState @ [Updated None qy, Named ''onValidated'' qy] \<and>
      delta_ops (opt_get (properties st') ''content'') = delta_ops (q_content qy) \<and>
      delta_ops (q_content qy) = JArr (getContents simpleQuill exampleEditor)) \<and>
   opt_get (properties stringContentState) ''content'' = JStr ''hello'' \<and>
   (\<exists>st'. validate simpleQuill stringContentState = Inl (TypeError, st') \<and>
      sent st' = sent stringContentState \<and>
      properties st' = properties stringContentState)"
proof -
  have q: "quill exampleState = Some exampleEditor"
    and p: "properties exampleState = Some exampleProperties"
    by (simp_all add: exampleState_eq)
  have c: "obj_get exampleProperties ''content'' =
      JObj [(''ops'', JArr [JObj [(''insert'', JStr ''hello'')]])]"
    by (simp add: exampleProperties_def obj_get_def)
  have s: "opt_get (properties stringContentState) ''content'' = JStr ''hello''"
    by (simp add: stringContentState_eq opt_get_def obj_get_def)
  from validate_assigns_ops [of exampleState exampleEditor exampleProperties
      "[(''ops'', JArr [JObj [(''insert'', JStr ''hello'')]])]" simpleQuill
      "''hello''"]
    validate_assigns_ops [of stringContentState exampleEditor exampleProperties
      "[]" simpleQuill "''hello''"] q p c s
  show ?thesis
    by blast
qed

section \<open>Payloads that are absent or malformed\<close>

text \<open>
  Claim C5, as stated, fails for a malformed payload: the number 42 given to
  \<^verbatim>\<open>setContent\<close> is truthy and not a string, so it is handed to \<^verbatim>\<open>setContents\<close>, and
  the editor's document changes.
\<close>

theorem malformed_payload_counterexample:
  "listen_setContent simpleQuill [JObj [(''content'', JNum 42)]] exampleState =
     Inr (exampleState\<lparr>quill := Some (exampleEditor\<lparr>ed_ops := []\<rparr>)\<rparr>) \<and>
   listen_setContent simpleQuill [JObj [(''content'', JNum 42)]] exampleState \<noteq>
     Inr exampleState"
  by (simp add: listen_setContent_def firstArg_def fieldOf_def obj_get_def updateText_def
      applyContent_def exampleState_eq exampleEditor_def exampleProperties_def opt_get_def
      simpleQuill_def opsOf_def Let_def)

text \<open>
  Claim C5, amended. A payload that is absent or falsy (undefined, null, the empty
  string, 0, false) given to \<^verbatim>\<open>setText\<close> or \<^verbatim>\<open>setContent\<close> leaves the whole state
  as it was and throws nothing. A property update that changes only \<^verbatim>\<open>content\<close> or
  \<^verbatim>\<open>readOnly\<close> and carries a falsy content stores the new properties and applies
  \<^verbatim>\<open>enable(!readOnly)\<close>; no content reaches the editor and nothing is sent.
\<close>

theorem absent_payload_ignored:
  "(\<not> truthy (fieldOf (firstArg args) ''text'') \<longrightarrow> listen_setText L args st = Inr st) \<and>
   (\<not> truthy (fieldOf (firstArg args) ''content'') \<longrightarrow>
      listen_setContent L args st = Inr st) \<and>
   (quill st = Some q \<and> properties st = Some ps \<and> diffKeys ps pd \<noteq> [] \<and>
    set (diffKeys ps pd) \<subseteq> {''content'', ''readOnly''} \<and>
    \<not> truthy (obj_get pd ''content'') \<longrightarrow>
      onUpdate L isStudio pd st =
        Inr (st\<lparr>properties := Some pd,
                quill := Some (enable L (\<not> truthy (obj_get pd ''readOnly'')) q)\<rparr>))"
proof (intro conjI impI)
  assume "\<not> truthy (fieldOf (firstArg args) ''text'')"
  then show "listen_setText L args st = Inr st"
    by (simp add: listen_setText_def updateText_def)
next
  assume "\<not> truthy (fieldOf (firstArg args) ''content'')"
  then show "listen_setContent L args st = Inr st"
    by (simp add: listen_setContent_def updateText_def)
next
  assume a: "quill st = Some q \<and> properties st = Some ps \<and> diffKeys ps pd \<noteq> [] \<and>
    set (diffKeys ps pd) \<subseteq> {''content'', ''readOnly''} \<and>
    \<not> truthy (obj_get pd ''content'')"
  then have "list_all (\<lambda>key. truthy (obj_get mutableProperties key)) (diffKeys ps pd)"
    by (auto simp add: list_all_iff mutableProperties_def obj_get_def)
  with a show "onUpdate L isStudio pd st =
        Inr (st\<lparr>properties := Some pd,
                quill := Some (enable L (\<not> truthy (obj_get pd ''readOnly'')) q)\<rparr>)"
    by (simp add: onUpdate_def updateQuill_def opt_get_def Let_def)
qed

theorem absent_payload_ignored_witness:
  "\<not> truthy (fieldOf (firstArg []) ''text'') \<and>
   listen_setText simpleQuill [] exampleState = Inr exampleState \<and>
   \<not> truthy (fieldOf (firstArg []) ''content'') \<and>
   listen_setContent simpleQuill [] exampleState = Inr exampleState \<and>
   quill exampleState = Some exampleEditor \<and>
   properties exampleState = Some exampleProperties \<and>
   diffKeys exampleProperties emptyContentProperties = [''content''] \<and>
   \<not> truthy (obj_get emptyContentProperties ''content'') \<and>
   onUpdate simpleQuill (JBool False) emptyContentProperties exampleState =
     Inr (exampleState\<lparr>properties := Some emptyContentProperties,
                       quill := Some (enable simpleQuill True exampleEditor)\<rparr>)"
proof -
  have t: "\<not> truthy (fieldOf (firstArg []) ''text'')"
    and c: "\<not> truthy (fieldOf (firstArg []) ''content'')"
    by (simp_all add: firstArg_def fieldOf_def obj_get_def objectPrototypeKeys_def)
  have q: "quill exampleState = Some exampleEditor"
    and p: "properties exampleState = Some exampleProperties"
    by (simp_all add: exampleState_eq)
  have d: "diffKeys exampleProperties emptyContentProperties = [''content'']"
    by (simp add: diffKeys_def exampleProperties_def emptyContentProperties_def obj_get_def)
  have e: "\<not> truthy (obj_get emptyContentProperties ''content'')"
    and r: "\<not> truthy (obj_get emptyContentProperties ''readOnly'')"
    by (simp_all add: emptyContentProperties_def obj_get_def)
  from absent_payload_ignored [of "[]" simpleQuill exampleState exampleEditor
      exampleProperties emptyContentProperties "JBool False"] t c q p d e r
  show ?thesis
    by simp
qed

section \<open>Focus notifications\<close>

text \<open>
  Claim C4. The window blur listener sets the pending flag and sends nothing. A
  selection change from no selection to some selection, delivered to an editor, adds
  exactly one \<^verbatim>\<open>onFocused\<close>. No event adds more than one, and an event that adds one
  leaves the flag cleared. No event but the blur sets the flag. With the flag clear,
  an event that is not such a selection change adds none. So over any run of events
  the number of \<^verbatim>\<open>onFocused\<close> sent is at most the number of those selection changes
  plus the number of blurs (plus one when the flag was already set): each blur pays
  for at most one notification.
\<close>

theorem focus_notifications:
  "state_of (step L isStudio WindowBlur st) = st\<lparr>shouldForceFocus := True\<rparr> \<and>
   (quill st \<noteq> None \<and> focusTransition ev \<longrightarrow>
      focusCount (state_of (step L isStudio ev st)) = Suc (focusCount st)) \<and>
   (focusCount (state_of (step L isStudio ev st)) = focusCount st \<or>
    focusCount (state_of (step L isStudio ev st)) = Suc (focusCount st) \<and>
      \<not> shouldForceFocus (state_of (step L isStudio ev st))) \<and>
   (ev \<noteq> WindowBlur \<and> shouldForceFocus (state_of (step L isStudio ev st)) \<longrightarrow>
      shouldForceFocus st) \<and>
   (\<not> shouldForceFocus st \<and> \<not> focusTransition ev \<longrightarrow>
      focusCount (state_of (step L isStudio ev st)) = focusCount st) \<and>
   focusCount (run L isStudio evs st) \<le>
     focusCount st + length (filter focusTransition evs) +
       length (filter (\<lambda>e. e = WindowBlur) evs) + (if shouldForceFocus st then 1 else 0)"
proof (intro conjI impI)
  show "state_of (step L isStudio WindowBlur st) = st\<lparr>shouldForceFocus := True\<rparr>"
    by (simp add: step_def)
next
  assume "quill st \<noteq> None \<and> focusTransition ev"
  then show "focusCount (state_of (step L isStudio ev st)) = Suc (focusCount st)"
    by (simp add: step_focus_transition)
next
  from step_focus_cases [of L isStudio ev st]
  show "focusCount (state_of (step L isStudio ev st)) = focusCount st \<or>
    focusCount (state_of (step L isStudio ev st)) = Suc (focusCount st) \<and>
      \<not> shouldForceFocus (state_of (step L isStudio ev st))"
    by blast
next
  assume "ev \<noteq> WindowBlur \<and> shouldForceFocus (state_of (step L isStudio ev st))"
  with step_focus_cases [of L isStudio ev st] show "shouldForceFocus st"
    by blast
next
  assume "\<not> shouldForceFocus st \<and> \<not> focusTransition ev"
  with step_focus_cases [of L isStudio ev st]
  show "focusCount (state_of (step L isStudio ev st)) = focusCount st"
    by blast
next
  from run_focus_potential [of L isStudio evs st]
  show "focusCount (run L isStudio evs st) \<le>
     focusCount st + length (filter focusTransition evs) +
       length (filter (\<lambda>e. e = WindowBlur) evs) + (if shouldForceFocus st then 1 else 0)"
    by (simp split: if_splits)
qed

theorem focus_notifications_witness:
  "quill exampleState \<noteq> None \<and> focusTransition (SelectionChange (JNum 0) JNull) \<and>
   focusCount (state_of (step simpleQuill (JBool False) (SelectionChange (JNum 0) JNull)
     exampleState)) = Suc (focusCount exampleState) \<and>
   \<not> shouldForceFocus (state_of (step simpleQuill (JBool False)
     (SelectionChange (JNum 0) JNull) exampleState)) \<and>
   \<not> shouldForceFocus exampleState \<and> \<not> focusTransition TextChange \<and>
   focusCount (state_of (step simpleQuill (JBool False) TextChange exampleState)) =
     focusCount exampleState \<and>
   TextChange \<noteq> WindowBlur \<and>
   shouldForceFocus (state_of (step simpleQuill (JBool False) TextChange
     (exampleState\<lparr>shouldForceFocus := True\<rparr>))) \<and>
   shouldForceFocus (exampleState\<lparr>shouldForceFocus := True\<rparr>) \<and>
   focusCount (run simpleQuill (JBool False)
     [WindowBlur, SelectionChange JNull JNull, SelectionChange JNull JNull] exampleState) \<le> 1"
proof -
  have s: "shouldForceFocus (state_of (step simpleQuill (JBool False) TextChange
     (exampleState\<lparr>shouldForceFocus := True\<rparr>)))"
    by (simp add: step_def exampleState_eq)
  have q: "quill exampleState \<noteq> None" and f: "\<not> shouldForceFocus exampleState"
    and c: "focusCount exampleState = 0"
    by (simp_all add: exampleState_eq focusCount_def)
  have t: "focusTransition (SelectionChange (JNum 0) JNull)" and n: "\<not> focusTransition TextChange"
    by simp_all
  from focus_notifications [of simpleQuill "JBool False" exampleState
      "SelectionChange (JNum 0) JNull"
      "[WindowBlur, SelectionChange JNull JNull, SelectionChange JNull JNull]"]
    focus_notifications [of simpleQuill "JBool False" exampleState TextChange "[]"]
    focus_notifications [of simpleQuill "JBool False"
      "exampleState\<lparr>shouldForceFocus := True\<rparr>" TextChange "[]"]
    q f c t n s
  show ?thesis
    by simp
qed

section \<open>Listeners of the host bridge\<close>

text \<open>
  Claim C8. The \<^verbatim>\<open>clearText\<close> listener never changes anything: it calls
  \<^verbatim>\<open>updateText("")\<close>, and the empty string is falsy, so \<^verbatim>\<open>updateText\<close> returns at
  its first statement. The whole state, with the editor's document, selection and
  enabled flag, is what it was, and nothing is thrown.
\<close>

theorem clearText_is_noop:
  "listen_clearText L st = Inr st \<and> step L isStudio (Listen ''clearText'' args) st = Inr st"
  by (simp add: listen_clearText_def updateText_def step_def)

text \<open>
  Claim C10. Before an editor exists (\<^verbatim>\<open>quill\<close> is \<^verbatim>\<open>null\<close>) the listeners
  \<^verbatim>\<open>setText\<close>, \<^verbatim>\<open>setContent\<close>, \<^verbatim>\<open>clearText\<close> and \<^verbatim>\<open>focusText\<close> return without
  any effect, whatever their arguments; the \<^verbatim>\<open>validate\<close> listener has no such guard
  and throws a type error on \<^verbatim>\<open>quill.getText()\<close>.
\<close>

theorem listeners_before_init:
  assumes "quill st = None"
  shows "listen_setText L args st = Inr st \<and>
         listen_setContent L args st = Inr st \<and>
         listen_clearText L st = Inr st \<and>
         listen_focusText L st = Inr st \<and>
         listen_validate L st = Inl (TypeError, st)"
  using assms
  by (simp add: listen_setText_def listen_setContent_def listen_clearText_def
      listen_focusText_def listen_validate_def validate_def)

theorem listeners_before_init_witness:
  "quill (initial :: simple_editor adapter) = None \<and>
   listen_setText simpleQuill [JObj [(''text'', JStr ''hi'')]] initial = Inr initial \<and>
   listen_setContent simpleQuill [JObj [(''text'', JStr ''hi'')]] initial = Inr initial \<and>
   listen_clearText simpleQuill initial = Inr initial \<and>
   listen_focusText simpleQuill initial = Inr initial \<and>
   listen_validate simpleQuill initial = Inl (TypeError, initial)"
  using listeners_before_init [of initial simpleQuill "[JObj [(''text'', JStr ''hi'')]]"]
  by (simp add: initial_def)

end
